theory Spec2Isabelle
  imports Complex_Main "HOL-Library.Multiset" "HOL-Library.Char_ord"
    "HOL-Library.List_Lexorder" "HOL-Library.Product_Lexorder"
begin

section \<open>Student QR attendance system: the handlers of app.py\<close>

text \<open>
  The program is a set of Flask handlers over two SQLite databases and one global
  variable. The embedding keeps that shape:
  \<^item> a table is the list of its rows in rowid order (a row of \<open>students\<close> or
    \<open>subjects\<close> is the pair that \<open>fetchone\<close> hands to Python, a row of
    \<open>attendance\<close> is a record of its five columns);
  \<^item> the state is the three tables, the AUTOINCREMENT counter that SQLite keeps for
    \<open>attendance\<close> in \<open>sqlite_sequence\<close>, and the global \<open>current_subject\<close>;
  \<^item> a handler takes the state and the request and returns the new state with its
    outcome: \<open>Inr j\<close> when it returns \<open>jsonify(j)\<close> (an HTTP 200 answer), \<open>Inl e\<close>
    when the exception \<open>e\<close> leaves the handler (Flask answers with an HTTP error);
  \<^item> text columns and JSON strings are \<open>string\<close>s, compared byte by byte as SQLite's
    BINARY collation does; a request body is a JSON object with string fields;
  \<^item> the \<open>datetime\<close> column, declared TIMESTAMP, holds what SQLite keeps as a date:
    a text, an integer, a real number, or NULL;
  \<^item> the QR encoder, the file system and the clock are parameters.
  Every SQL statement is taken to execute: a failure of the storage engine itself
  (an unreadable file, a locked database) is not part of the model.
\<close>

subsection \<open>Values\<close>

datatype json =
    JNull
  | JBool bool
  | JInt int
  | JReal real
  | JStr string
  | JList "json list"
  | JObj "(string \<times> json) list"

text \<open>The exceptions the handlers can meet, and Python's \<open>str(e)\<close> of each.\<close>

datatype exn =
    KeyError string
  | IntegrityError string
  | OtherError string

definition str :: "exn \<Rightarrow> string" where
  "str e = (case e of
      KeyError k \<Rightarrow> [CHR 0x27] @ k @ [CHR 0x27]
    | IntegrityError m \<Rightarrow> m
    | OtherError m \<Rightarrow> m)"

text \<open>\<open>request.get_json()\<close>: the fields of the JSON object in the body.\<close>

type_synonym request = "string \<rightharpoonup> string"

text \<open>\<open>data[k]\<close> on the request dictionary: a missing key raises \<open>KeyError\<close>.\<close>

definition getitem :: "request \<Rightarrow> string \<Rightarrow> exn + string" where
  "getitem data k = (case data k of None \<Rightarrow> Inl (KeyError k) | Some v \<Rightarrow> Inr v)"

subsection \<open>The stores\<close>

text \<open>
  The values of the \<open>datetime\<close> column. Its declared type TIMESTAMP gives it NUMERIC
  affinity, and it has no NOT NULL: SQLite keeps there NULL, an INTEGER, a REAL (taken
  here as the real number it denotes) or a TEXT. Python reads them as \<open>None\<close>, an
  \<open>int\<close>, a \<open>float\<close> and a \<open>str\<close>.
\<close>

datatype sql_value =
    SqlNull
  | SqlInteger int
  | SqlReal real
  | SqlText string

text \<open>
  How SQLite compares two such values in ORDER BY: NULL comes before every number, a
  number before every text; numbers compare by value, INTEGER and REAL alike; texts
  compare byte by byte. \<open>sql_key\<close> maps a value to a triple whose lexicographic order
  is that order.
\<close>

definition sql_key :: "sql_value \<Rightarrow> nat \<times> real \<times> string" where
  "sql_key v = (case v of
      SqlNull \<Rightarrow> (0, 0, [])
    | SqlInteger i \<Rightarrow> (1, of_int i, [])
    | SqlReal r \<Rightarrow> (1, r, [])
    | SqlText x \<Rightarrow> (2, 0, x))"

record attendance_row =
  log_id :: int
  roll_no :: string
  subject_id :: string
  datetime :: sql_value
  status :: string

text \<open>
  \<open>students\<close> and \<open>subjects\<close> are the tables of \<open>data/student_data.db\<close>,
  \<open>attendance\<close> is the table of \<open>data/attendance.db\<close> and \<open>attendance_seq\<close> its
  \<open>sqlite_sequence\<close> entry (the largest \<open>log_id\<close> ever handed out).
  \<open>current_subject\<close> is the global dictionary, as the pair of its
  \<open>subject_id\<close> and \<open>subject_name\<close>.
\<close>

record state =
  students :: "(string \<times> string) list"
  subjects :: "(string \<times> string) list"
  attendance :: "attendance_row list"
  attendance_seq :: int
  current_subject :: "string \<times> string"

text \<open>\<open>cursor.fetchone()\<close>: the first row of the result, or \<open>None\<close>.\<close>

definition fetchone :: "'a list \<Rightarrow> 'a option" where
  "fetchone rows = (case rows of [] \<Rightarrow> None | row # _ \<Rightarrow> Some row)"

text \<open>\<open>SELECT ... WHERE key = ?\<close> on a table whose first column is the key.\<close>

definition select_where_key :: "string \<Rightarrow> (string \<times> 'a) list \<Rightarrow> (string \<times> 'a) list" where
  "select_where_key k rows = filter (\<lambda>row. fst row = k) rows"

text \<open>
  \<open>INSERT INTO t VALUES (?, ?)\<close> on a table with a TEXT PRIMARY KEY: a row with the
  same key makes the statement fail with \<open>IntegrityError\<close> and leaves the table alone.
\<close>

definition insert_row :: "string \<Rightarrow> (string \<times> string) list \<Rightarrow> string \<times> string
    \<Rightarrow> exn + (string \<times> string) list" where
  "insert_row col rows row =
     (if select_where_key (fst row) rows \<noteq> []
      then Inl (IntegrityError (''UNIQUE constraint failed: '' @ col))
      else Inr (rows @ [row]))"

text \<open>\<open>INSERT OR IGNORE\<close>: the conflicting insert is skipped instead of failing.\<close>

definition insert_or_ignore :: "(string \<times> string) list \<Rightarrow> string \<times> string
    \<Rightarrow> (string \<times> string) list" where
  "insert_or_ignore rows row =
     (if select_where_key (fst row) rows \<noteq> [] then rows else rows @ [row])"

text \<open>
  The rowid an AUTOINCREMENT table gives to a row inserted without one: one more than
  the largest rowid the table has ever held.
\<close>

definition new_rowid :: "attendance_row list \<Rightarrow> int \<Rightarrow> int" where
  "new_rowid rows seq = fold max (map log_id rows) seq + 1"

text \<open>The largest rowid of SQLite, a signed 64-bit integer.\<close>

definition max_rowid :: int where
  "max_rowid = 9223372036854775807"

text \<open>
  \<open>INSERT OR REPLACE INTO attendance (roll_no, subject_id, status) VALUES (?, ?, ?)\<close>.
  The columns left out take their defaults: \<open>log_id\<close> the next rowid, \<open>datetime\<close>
  CURRENT_TIMESTAMP, which is the clock reading \<open>now\<close> as the text
  \<open>YYYY-MM-DD HH:MM:SS\<close> (not a number, so the column keeps it as text). Once the
  largest rowid has been used the statement fails (\<open>database or disk is full\<close>), and
  so it does when the CHECK on \<open>status\<close> fails. OR REPLACE deletes the rows that
  collide with the new row on a PRIMARY KEY or UNIQUE constraint, and \<open>log_id\<close> is
  the only such constraint of the table.
\<close>

definition insert_or_replace_attendance :: "string \<Rightarrow> state \<Rightarrow> string \<times> string \<times> string
    \<Rightarrow> exn + state" where
  "insert_or_replace_attendance now s vals =
     (case vals of (rno, sid, st) \<Rightarrow>
        let lid = new_rowid (attendance s) (attendance_seq s);
            row = \<lparr>log_id = lid, roll_no = rno, subject_id = sid,
                   datetime = SqlText now, status = st\<rparr>
        in if max_rowid < lid
           then Inl (OtherError ''database or disk is full'')
           else if st \<notin> {''Present'', ''Absent''}
           then Inl (IntegrityError ''CHECK constraint failed: attendance'')
           else Inr (s\<lparr>attendance :=
                          filter (\<lambda>r. log_id r \<noteq> lid) (attendance s) @ [row],
                        attendance_seq := lid\<rparr>))"

text \<open>
  \<open>ORDER BY col\<close> on a text column and \<open>ORDER BY col DESC\<close> on the \<open>datetime\<close>
  column. SQLite's sorter returns rows with equal keys in the order in which the scan
  of the table met them, ascending or descending: both sorts are stable. A stable
  descending sort is the stable ascending sort of the reversed list, reversed.
\<close>

definition order_by :: "('a \<Rightarrow> string) \<Rightarrow> 'a list \<Rightarrow> 'a list" where
  "order_by col rows = sort_key col rows"

definition order_by_desc :: "('a \<Rightarrow> sql_value) \<Rightarrow> 'a list \<Rightarrow> 'a list" where
  "order_by_desc col rows = rev (sort_key (\<lambda>row. sql_key (col row)) (rev rows))"

subsection \<open>Start-up\<close>

definition default_subjects :: "(string \<times> string) list" where
  "default_subjects =
     [(''BCA-501'', ''DBMS''),
      (''BCA-502'', ''JAVA''),
      (''BCA-503'', ''CN''),
      (''BCA-504'', ''DBMS-LAB''),
      (''BCA-505'', ''JAVA-LAB'')]"

text \<open>
  \<open>init_db\<close>: CREATE TABLE IF NOT EXISTS leaves a table that is there as it is (one
  that is not there is an empty list already), then the five default subjects are
  inserted, each unless its \<open>subject_id\<close> is taken.
\<close>

definition init_db :: "state \<Rightarrow> state" where
  "init_db s = s\<lparr>subjects := fold (\<lambda>row rows. insert_or_ignore rows row)
                                 default_subjects (subjects s)\<rparr>"

text \<open>The databases before the first run: no file, so no row and no counter.\<close>

definition fresh :: state where
  "fresh = \<lparr>students = [], subjects = [], attendance = [], attendance_seq = 0,
            current_subject = (''BCA-501'', ''DBMS'')\<rparr>"

text \<open>
  A run of \<open>app.py\<close> over the databases found on disk: the module sets
  \<open>current_subject\<close> when it is loaded, then \<open>init_db()\<close> runs.
\<close>

definition startup :: "state \<Rightarrow> state" where
  "startup disk = init_db (disk\<lparr>current_subject := (''BCA-501'', ''DBMS'')\<rparr>)"

subsection \<open>QR code generation\<close>

text \<open>
  What \<open>generate_qr_code\<close> calls outside the program: \<open>make_image\<close> is the qrcode
  library on a payload (the image, or the exception it raises), \<open>save_file\<close> is
  \<open>img.save(path)\<close> (the exception it raises, if any), \<open>b64encode\<close> is the base64
  text of the image's PNG bytes.
\<close>

record qr_env =
  make_image :: "string \<Rightarrow> exn + string"
  save_file :: "string \<Rightarrow> string \<Rightarrow> exn option"
  b64encode :: "string \<Rightarrow> string"

definition generate_qr_code :: "qr_env \<Rightarrow> string \<Rightarrow> exn + string" where
  "generate_qr_code env rno =
     (case make_image env rno of
        Inl e \<Rightarrow> Inl e
      | Inr img \<Rightarrow>
          (case save_file env (''qr_codes/'' @ rno @ ''.png'') img of
             Some e \<Rightarrow> Inl e
           | None \<Rightarrow> Inr (b64encode env img)))"

subsection \<open>Handlers\<close>

definition failure :: "string \<Rightarrow> json" where
  "failure msg = JObj [(''success'', JBool False), (''error'', JStr msg)]"

text \<open>
  \<open>/register\<close>. The request is read before the \<open>try\<close>; inside it the insert is
  committed before the QR code is generated. \<open>except sqlite3.IntegrityError\<close> comes
  first, \<open>except Exception\<close> takes the rest.
\<close>

definition register_student :: "qr_env \<Rightarrow> state \<Rightarrow> request \<Rightarrow> state \<times> (exn + json)" where
  "register_student env s data =
     (case getitem data ''roll_no'' of
        Inl e \<Rightarrow> (s, Inl e)
      | Inr rno \<Rightarrow>
     (case getitem data ''name'' of
        Inl e \<Rightarrow> (s, Inl e)
      | Inr name \<Rightarrow>
          let (s', body) =
            (case insert_row ''students.roll_no'' (students s) (rno, name) of
               Inl e \<Rightarrow> (s, Inl e)
             | Inr rows \<Rightarrow>
                 (s\<lparr>students := rows\<rparr>,
                  case generate_qr_code env rno of
                    Inl e \<Rightarrow> Inl e
                  | Inr qr_code \<Rightarrow>
                      Inr (JObj [(''success'', JBool True), (''qr_code'', JStr qr_code)])))
          in (s', case body of
                Inr j \<Rightarrow> Inr j
              | Inl (IntegrityError m) \<Rightarrow> Inr (failure ''Roll number already exists'')
              | Inl e \<Rightarrow> Inr (failure (str e)))))"

text \<open>\<open>/clear-data\<close>: DELETE FROM students, then DELETE FROM attendance.\<close>

definition clear_data :: "state \<Rightarrow> state \<times> (exn + json)" where
  "clear_data s =
     (s\<lparr>students := [], attendance := []\<rparr>,
      Inr (JObj [(''success'', JBool True),
                 (''message'', JStr ''All data cleared successfully'')]))"

definition student_json :: "string \<times> string \<Rightarrow> json" where
  "student_json row = JObj [(''roll_no'', JStr (fst row)), (''name'', JStr (snd row))]"

definition subject_json :: "string \<times> string \<Rightarrow> json" where
  "subject_json row =
     JObj [(''subject_id'', JStr (fst row)), (''subject_name'', JStr (snd row))]"

text \<open>What \<open>jsonify\<close> makes of a value read from the \<open>datetime\<close> column.\<close>

definition sql_json :: "sql_value \<Rightarrow> json" where
  "sql_json v = (case v of
      SqlNull \<Rightarrow> JNull
    | SqlInteger i \<Rightarrow> JInt i
    | SqlReal r \<Rightarrow> JReal r
    | SqlText x \<Rightarrow> JStr x)"

definition attendance_json :: "attendance_row \<Rightarrow> json" where
  "attendance_json row =
     JObj [(''log_id'', JInt (log_id row)), (''roll_no'', JStr (roll_no row)),
           (''subject_id'', JStr (subject_id row)), (''datetime'', sql_json (datetime row)),
           (''status'', JStr (status row))]"

text \<open>\<open>/data\<close>: three SELECTs, formatted into one dictionary.\<close>

definition show_data :: "state \<Rightarrow> state \<times> (exn + json)" where
  "show_data s =
     (let students = students s;
          subjects = order_by snd (subjects s);
          attendance = order_by_desc datetime (attendance s)
      in (s, Inr (JObj
            [(''database1_student_data'', JObj
                [(''students'', JList (map student_json students)),
                 (''subjects'', JList (map subject_json subjects))]),
             (''database2_attendance'', JObj
                [(''attendance'', JList (map attendance_json attendance))])])))"

definition current_json :: "string \<times> string \<Rightarrow> json" where
  "current_json cur =
     JObj [(''subject_id'', JStr (fst cur)), (''subject_name'', JStr (snd cur))]"

text \<open>\<open>/get-subjects\<close>.\<close>

definition get_subjects :: "state \<Rightarrow> state \<times> (exn + json)" where
  "get_subjects s =
     (let subjects = order_by snd (subjects s)
      in (s, Inr (JObj [(''success'', JBool True),
                        (''subjects'', JList (map subject_json subjects)),
                        (''current'', current_json (current_subject s))])))"

text \<open>
  \<open>/set-subject\<close>. Here the request is read inside the \<open>try\<close>, so a missing key
  ends in the \<open>except Exception\<close> branch.
\<close>

definition set_subject :: "state \<Rightarrow> request \<Rightarrow> state \<times> (exn + json)" where
  "set_subject s data =
     (case getitem data ''subject_id'' of
        Inl e \<Rightarrow> (s, Inr (failure (str e)))
      | Inr sid \<Rightarrow>
          (case fetchone (map snd (select_where_key sid (subjects s))) of
             Some name \<Rightarrow>
               let s' = s\<lparr>current_subject := (sid, name)\<rparr>
               in (s', Inr (JObj [(''success'', JBool True),
                                  (''current'', current_json (current_subject s'))]))
           | None \<Rightarrow> (s, Inr (failure ''Subject not found''))))"

text \<open>
  \<open>/scan\<close>. The request and \<open>current_subject\<close> are read before the \<open>try\<close>;
  \<open>now\<close> is the clock reading SQLite takes for CURRENT_TIMESTAMP.
\<close>

definition scan_qr :: "string \<Rightarrow> state \<Rightarrow> request \<Rightarrow> state \<times> (exn + json)" where
  "scan_qr now s data =
     (case getitem data ''roll_no'' of
        Inl e \<Rightarrow> (s, Inl e)
      | Inr rno \<Rightarrow>
          let sid = fst (current_subject s) in
          (case fetchone (select_where_key rno (students s)) of
             Some student \<Rightarrow>
               (case insert_or_replace_attendance now s (rno, sid, ''Present'') of
                  Inl e \<Rightarrow> (s, Inr (failure (str e)))
                | Inr s' \<Rightarrow>
                    (s', Inr (JObj [(''success'', JBool True),
                                    (''student'', JObj
                                       [(''roll_no'', JStr (fst student)),
                                        (''name'', JStr (snd student)),
                                        (''subject_id'', JStr sid),
                                        (''status'', JStr ''Present'')])])))
           | None \<Rightarrow> (s, Inr (failure ''Student not found''))))"

subsection \<open>Runs\<close>

text \<open>
  The states a run can be in: \<open>startup\<close> over the databases found on disk, then any
  sequence of requests, each with its own body, clock reading and QR environment.
\<close>

inductive reachable :: "state \<Rightarrow> state \<Rightarrow> bool" for disk :: state where
  start: "reachable disk (startup disk)"
| register: "reachable disk s \<Longrightarrow> reachable disk (fst (register_student env s data))"
| clear: "reachable disk s \<Longrightarrow> reachable disk (fst (clear_data s))"
| data: "reachable disk s \<Longrightarrow> reachable disk (fst (show_data s))"
| subjects: "reachable disk s \<Longrightarrow> reachable disk (fst (get_subjects s))"
| set: "reachable disk s \<Longrightarrow> reachable disk (fst (set_subject s data))"
| scan: "reachable disk s \<Longrightarrow> reachable disk (fst (scan_qr now s data))"

subsection \<open>A sample environment\<close>

text \<open>
  The QR environment of a plain installation: the image of a payload is a text that stands for it,
  and the directory \<open>qr_codes\<close> that the module creates has no subdirectory, so a file
  whose name holds a slash cannot be written there.
\<close>

definition flat_dir_env :: qr_env where
  "flat_dir_env =
     \<lparr>make_image = (\<lambda>payload. Inr (''QR('' @ payload @ '')'')),
      save_file = (\<lambda>path img.
         if CHR ''/'' \<in> set (drop 9 path)
         then Some (OtherError (''[Errno 2] No such file or directory: ''
                                  @ [CHR 0x27] @ path @ [CHR 0x27]))
         else None),
      b64encode = (\<lambda>img. img)\<rparr>"

section \<open>Properties\<close>

subsection \<open>Tables and keys\<close>

lemma select_where_key_empty: "select_where_key k rows = [] \<longleftrightarrow> k \<notin> fst ` set rows"
  by (force simp add: select_where_key_def filter_empty_conv)

lemma select_where_key_distinct:
  "(k, v) \<in> set rows \<Longrightarrow> distinct (map fst rows) \<Longrightarrow> select_where_key k rows = [(k, v)]"
  unfolding select_where_key_def
  by (induction rows) (auto simp add: filter_empty_conv image_iff intro: rev_image_eqI)

lemma keys_insert_or_ignore:
  "fst ` set (insert_or_ignore rows row) = insert (fst row) (fst ` set rows)"
  by (auto simp add: insert_or_ignore_def select_where_key_empty)

lemma insert_or_ignore_distinct:
  "distinct (map fst rows) \<Longrightarrow> distinct (map fst (insert_or_ignore rows row))"
  by (simp add: insert_or_ignore_def select_where_key_empty)

lemma le_fold_max: "x \<in> set xs \<Longrightarrow> (x::int) \<le> fold max xs a"
  by (simp add: Max.set_eq_fold [symmetric])

lemma log_id_less_new_rowid: "r \<in> set rows \<Longrightarrow> log_id r < new_rowid rows seq"
  using le_fold_max [of "log_id r" "map log_id rows" seq] by (simp add: new_rowid_def)

subsection \<open>What each step leaves alone\<close>

lemma startup_fresh: "startup fresh = fresh\<lparr>subjects := default_subjects\<rparr>"
  by (simp add: startup_def fresh_def init_db_def default_subjects_def
        insert_or_ignore_def select_where_key_def)

lemma startup_frame:
  "students (startup disk) = students disk"
  "attendance (startup disk) = attendance disk"
  "attendance_seq (startup disk) = attendance_seq disk"
  "current_subject (startup disk) = (''BCA-501'', ''DBMS'')"
  by (simp_all add: startup_def init_db_def)

lemma startup_has_default: "''BCA-501'' \<in> fst ` set (subjects (startup disk))"
  by (simp add: startup_def init_db_def default_subjects_def keys_insert_or_ignore)

lemma startup_distinct:
  "distinct (map fst (subjects disk)) \<Longrightarrow> distinct (map fst (subjects (startup disk)))"
  by (simp add: startup_def init_db_def default_subjects_def insert_or_ignore_distinct)

lemma register_student_frame:
  "subjects (fst (register_student env s data)) = subjects s"
  "attendance (fst (register_student env s data)) = attendance s"
  "attendance_seq (fst (register_student env s data)) = attendance_seq s"
  "current_subject (fst (register_student env s data)) = current_subject s"
  by (simp_all add: register_student_def split: sum.splits prod.splits)

lemma register_student_distinct:
  "distinct (map fst (students s)) \<Longrightarrow>
   distinct (map fst (students (fst (register_student env s data))))"
  by (auto simp add: register_student_def getitem_def insert_row_def select_where_key_empty
        split: option.splits)

lemma scan_qr_frame:
  "subjects (fst (scan_qr now s data)) = subjects s"
  "students (fst (scan_qr now s data)) = students s"
  "current_subject (fst (scan_qr now s data)) = current_subject s"
  by (auto simp add: scan_qr_def insert_or_replace_attendance_def Let_def
        split: sum.splits option.splits if_splits)

lemma scan_qr_attendance:
  "r \<in> set (attendance (fst (scan_qr now s data))) \<Longrightarrow>
     r \<in> set (attendance s) \<or> status r = ''Present''"
  by (auto simp add: scan_qr_def insert_or_replace_attendance_def Let_def
        split: sum.splits option.splits if_splits)

lemma set_subject_frame:
  "subjects (fst (set_subject s data)) = subjects s"
  "students (fst (set_subject s data)) = students s"
  "attendance (fst (set_subject s data)) = attendance s"
  "attendance_seq (fst (set_subject s data)) = attendance_seq s"
  by (simp_all add: set_subject_def Let_def split: sum.splits option.splits)

lemma set_subject_current:
  "fst (current_subject s) \<in> fst ` set (subjects s) \<Longrightarrow>
   fst (current_subject (fst (set_subject s data))) \<in> fst ` set (subjects s)"
proof (cases "getitem data ''subject_id''")
  case (Inl e)
  assume "fst (current_subject s) \<in> fst ` set (subjects s)"
  with Inl show ?thesis by (simp add: set_subject_def)
next
  case (Inr sid)
  assume cur: "fst (current_subject s) \<in> fst ` set (subjects s)"
  show ?thesis
  proof (cases "select_where_key sid (subjects s)")
    case Nil
    with Inr cur show ?thesis by (simp add: set_subject_def fetchone_def)
  next
    case (Cons row rows)
    then have "sid \<in> fst ` set (subjects s)"
      using select_where_key_empty [of sid "subjects s"] by simp
    with Inr Cons show ?thesis by (simp add: set_subject_def fetchone_def)
  qed
qed

lemma fst_show_data: "fst (show_data s) = s"
  by (simp add: show_data_def)

lemma fst_get_subjects: "fst (get_subjects s) = s"
  by (simp add: get_subjects_def)

lemma fst_clear_data: "fst (clear_data s) = s\<lparr>students := [], attendance := []\<rparr>"
  by (simp add: clear_data_def)

text \<open>No request touches the subjects table, and the primary keys stay keys.\<close>

lemma reachable_subjects: "reachable disk s \<Longrightarrow> subjects s = subjects (startup disk)"
  by (induction rule: reachable.induct)
     (simp_all add: register_student_frame scan_qr_frame set_subject_frame
        fst_show_data fst_get_subjects fst_clear_data)

lemma reachable_fresh_subjects: "reachable fresh s \<Longrightarrow> subjects s = default_subjects"
  by (simp add: reachable_subjects startup_fresh)

lemma reachable_primary_keys:
  "reachable disk s \<Longrightarrow> distinct (map fst (students disk)) \<Longrightarrow>
     distinct (map fst (subjects disk)) \<Longrightarrow>
   distinct (map fst (students s)) \<and> distinct (map fst (subjects s))"
  by (induction rule: reachable.induct)
     (simp_all add: startup_frame startup_distinct register_student_distinct
        register_student_frame scan_qr_frame set_subject_frame fst_show_data fst_get_subjects
        fst_clear_data)

lemma order_by_default_subjects:
  "order_by snd default_subjects =
     [(''BCA-503'', ''CN''), (''BCA-501'', ''DBMS''), (''BCA-504'', ''DBMS-LAB''),
      (''BCA-502'', ''JAVA''), (''BCA-505'', ''JAVA-LAB'')]"
  by code_simp

subsection \<open>Scanning twice\<close>

text \<open>
  A scan of a registered roll number, as long as rowids are left, always adds a row:
  the new \<open>log_id\<close> is larger than every \<open>log_id\<close> in the table, so OR REPLACE
  finds no row to delete.
\<close>

lemma scan_qr_appends:
  assumes "data ''roll_no'' = Some rno" and "rno \<in> fst ` set (students s)"
    and "new_rowid (attendance s) (attendance_seq s) \<le> max_rowid"
  shows "attendance (fst (scan_qr now s data)) =
           attendance s @ [\<lparr>log_id = new_rowid (attendance s) (attendance_seq s),
                             roll_no = rno, subject_id = fst (current_subject s),
                             datetime = SqlText now, status = ''Present''\<rparr>]"
proof -
  from assms(2) obtain row rows where "select_where_key rno (students s) = row # rows"
    using select_where_key_empty [of rno "students s"]
    by (cases "select_where_key rno (students s)") auto
  moreover
  have "filter (\<lambda>r. log_id r \<noteq> new_rowid (attendance s) (attendance_seq s)) (attendance s)
      = attendance s"
    using log_id_less_new_rowid [of _ "attendance s" "attendance_seq s"]
    by (simp add: filter_id_conv) fastforce
  ultimately show ?thesis
    using assms(1,3)
    by (simp add: scan_qr_def getitem_def fetchone_def insert_or_replace_attendance_def Let_def)
qed

text \<open>
  C1. The claim: two scans of a registered roll number under one active subject leave
  exactly one attendance row for the pair, the second scan overwriting the first. On
  the code they leave two. The run: fresh databases, register BCA001, then scan BCA001
  at 10:00 and again at 10:05 with BCA-501 active. The table then holds the rows 1 and
  2, both for (BCA001, BCA-501) and both Present.
\<close>

theorem scan_twice_two_rows:
  "(let data = [''roll_no'' \<mapsto> ''BCA001''];
        s1 = fst (register_student flat_dir_env (startup fresh)
                    [''roll_no'' \<mapsto> ''BCA001'', ''name'' \<mapsto> ''Asha'']);
        s2 = fst (scan_qr ''2024-01-01 10:00:00'' s1 data);
        s3 = fst (scan_qr ''2024-01-01 10:05:00'' s2 data)
    in attendance s3) =
   [\<lparr>log_id = 1, roll_no = ''BCA001'', subject_id = ''BCA-501'',
      datetime = SqlText ''2024-01-01 10:00:00'', status = ''Present''\<rparr>,
    \<lparr>log_id = 2, roll_no = ''BCA001'', subject_id = ''BCA-501'',
      datetime = SqlText ''2024-01-01 10:05:00'', status = ''Present''\<rparr>]"
  by code_simp

subsection \<open>Failures at the handler boundary\<close>

text \<open>
  C2. The claim: every failure while handling a request is caught in the handler and
  answered with \<open>{success: false, error: message}\<close>, and no exception reaches the
  caller. On the code, \<open>/scan\<close> and \<open>/register\<close> read the request before their
  \<open>try\<close>: on a body without the key \<open>roll_no\<close> the \<open>KeyError\<close> leaves the handler.
  \<open>/set-subject\<close> reads its request inside the \<open>try\<close> and answers the same mistake
  with the structured failure.
\<close>

theorem request_read_outside_try:
  "scan_qr now s Map.empty = (s, Inl (KeyError ''roll_no'')) \<and>
   register_student env s Map.empty = (s, Inl (KeyError ''roll_no'')) \<and>
   set_subject s Map.empty =
     (s, Inr (JObj [(''success'', JBool False),
                    (''error'', JStr ([CHR 0x27] @ ''subject_id'' @ [CHR 0x27]))]))"
  by (simp add: scan_qr_def register_student_def set_subject_def getitem_def str_def
        failure_def)

subsection \<open>Registration\<close>

text \<open>
  C3. Registering a roll number that the students table already holds (its primary key
  being a key) answers \<open>{success: false, error: 'Roll number already exists'}\<close> and
  changes nothing: the table still has the one row for that roll number, with the name
  it had.
\<close>

theorem register_duplicate:
  assumes "data ''roll_no'' = Some rno" and "data ''name'' = Some name"
    and "(rno, name0) \<in> set (students s)" and "distinct (map fst (students s))"
  shows "register_student env s data =
           (s, Inr (JObj [(''success'', JBool False),
                          (''error'', JStr ''Roll number already exists'')])) \<and>
         filter (\<lambda>row. fst row = rno) (students (fst (register_student env s data)))
           = [(rno, name0)]"
proof -
  from assms(3) have "rno \<in> fst ` set (students s)"
    by force
  then have "select_where_key rno (students s) \<noteq> []"
    by (simp add: select_where_key_empty)
  with assms(1,2)
  have "register_student env s data =
      (s, Inr (JObj [(''success'', JBool False),
                     (''error'', JStr ''Roll number already exists'')]))"
    by (simp add: register_student_def getitem_def insert_row_def failure_def)
  moreover from assms(3,4) have "filter (\<lambda>row. fst row = rno) (students s) = [(rno, name0)]"
    using select_where_key_distinct [of rno name0 "students s"]
    by (simp add: select_where_key_def)
  ultimately show ?thesis
    by simp
qed

text \<open>Asha holds BCA001; registering BCA001 again for Bina fails and Asha stays.\<close>

theorem register_duplicate_witness:
  "register_student flat_dir_env (fresh\<lparr>students := [(''BCA001'', ''Asha'')]\<rparr>)
     [''roll_no'' \<mapsto> ''BCA001'', ''name'' \<mapsto> ''Bina'']
   = (fresh\<lparr>students := [(''BCA001'', ''Asha'')]\<rparr>,
      Inr (JObj [(''success'', JBool False),
                 (''error'', JStr ''Roll number already exists'')])) \<and>
   filter (\<lambda>row. fst row = ''BCA001'')
     (students (fst (register_student flat_dir_env
        (fresh\<lparr>students := [(''BCA001'', ''Asha'')]\<rparr>)
        [''roll_no'' \<mapsto> ''BCA001'', ''name'' \<mapsto> ''Bina''])))
   = [(''BCA001'', ''Asha'')]"
proof -
  let ?s = "fresh\<lparr>students := [(''BCA001'', ''Asha'')]\<rparr>"
  let ?data = "[''roll_no'' \<mapsto> ''BCA001'', ''name'' \<mapsto> ''Bina'']"
  have 1: "?data ''roll_no'' = Some ''BCA001''" and 2: "?data ''name'' = Some ''Bina''"
    by simp_all
  have 3: "(''BCA001'', ''Asha'') \<in> set (students ?s)"
    and 4: "distinct (map fst (students ?s))"
    by simp_all
  show ?thesis
    by (rule register_duplicate [OF 1 2 3 4])
qed

text \<open>
  C9, as the code has it. Registration checks nothing about its two strings: for any
  roll number the table does not hold, the empty one too, and any name, the row is
  inserted and committed. The answer is \<open>{success: true, qr_code: ...}\<close> when
  \<open>generate_qr_code\<close> returns; when it raises, the row stays and the answer is the
  structured failure with the exception's message (with the duplicate-key message,
  were the exception an \<open>IntegrityError\<close>).
\<close>

theorem register_no_validation:
  assumes "data ''roll_no'' = Some rno" and "data ''name'' = Some name"
    and "rno \<notin> fst ` set (students s)"
  shows "fst (register_student env s data) = s\<lparr>students := students s @ [(rno, name)]\<rparr> \<and>
         (\<forall>qr. generate_qr_code env rno = Inr qr \<longrightarrow>
            snd (register_student env s data) =
              Inr (JObj [(''success'', JBool True), (''qr_code'', JStr qr)])) \<and>
         (\<forall>e. generate_qr_code env rno = Inl e \<longrightarrow>
            snd (register_student env s data) =
              Inr (JObj [(''success'', JBool False),
                         (''error'', JStr (case e of
                              KeyError k \<Rightarrow> [CHR 0x27] @ k @ [CHR 0x27]
                            | IntegrityError m \<Rightarrow> ''Roll number already exists''
                            | OtherError m \<Rightarrow> m))]))"
proof -
  from assms(3) have "select_where_key rno (students s) = []"
    by (simp add: select_where_key_empty)
  then have ins: "insert_row ''students.roll_no'' (students s) (rno, name)
      = Inr (students s @ [(rno, name)])"
    by (simp add: insert_row_def)
  show ?thesis
    using assms(1,2) ins
    by (auto simp add: register_student_def getitem_def failure_def str_def
          split: exn.splits)
qed

text \<open>The empty roll number with the empty name registers on fresh databases.\<close>

theorem register_no_validation_witness:
  "register_student flat_dir_env (startup fresh) [''roll_no'' \<mapsto> '''', ''name'' \<mapsto> '''']
   = ((startup fresh)\<lparr>students := [('''', '''')]\<rparr>,
      Inr (JObj [(''success'', JBool True), (''qr_code'', JStr ''QR()'')]))"
proof -
  let ?data = "[''roll_no'' \<mapsto> '''', ''name'' \<mapsto> '''']"
  have 1: "?data ''roll_no'' = Some ''''" and 2: "?data ''name'' = Some ''''"
    by simp_all
  have 3: "'''' \<notin> fst ` set (students (startup fresh))"
    by (simp add: startup_frame fresh_def)
  have 4: "generate_qr_code flat_dir_env '''' = Inr ''QR()''"
    by (simp add: generate_qr_code_def flat_dir_env_def)
  from register_no_validation [OF 1 2 3, of flat_dir_env] 4
  have "fst (register_student flat_dir_env (startup fresh) ?data)
          = (startup fresh)\<lparr>students := students (startup fresh) @ [('''', '''')]\<rparr>"
    and "snd (register_student flat_dir_env (startup fresh) ?data)
          = Inr (JObj [(''success'', JBool True), (''qr_code'', JStr ''QR()'')])"
    by blast+
  then show ?thesis
    by (simp add: prod_eq_iff startup_frame fresh_def)
qed

text \<open>
  C9, as the claim has it, fails: the roll number \<open>a/b\<close> is not in the table, the
  row is inserted, and the answer is \<open>success: false\<close>, because the image cannot be
  saved as \<open>qr_codes/a/b.png\<close>.
\<close>

theorem register_unwritable_name_counterexample:
  "''a/b'' \<notin> fst ` set (students (startup fresh)) \<and>
   register_student flat_dir_env (startup fresh)
     [''roll_no'' \<mapsto> ''a/b'', ''name'' \<mapsto> ''Asha'']
   = ((startup fresh)\<lparr>students := [(''a/b'', ''Asha'')]\<rparr>,
      Inr (JObj [(''success'', JBool False),
                 (''error'', JStr (''[Errno 2] No such file or directory: ''
                                     @ [CHR 0x27] @ ''qr_codes/a/b.png'' @ [CHR 0x27]))]))"
  by code_simp

subsection \<open>The active subject\<close>

text \<open>
  C4. With \<open>subject_id\<close> the key of the subjects table: \<open>/set-subject\<close> with a
  \<open>subject_id\<close> that no row has answers \<open>{success: false, error: 'Subject not found'}\<close>
  and leaves the state, \<open>current_subject\<close> included, as it was; with the
  \<open>subject_id\<close> of a row it makes that row the \<open>current_subject\<close> and answers
  \<open>{success: true, current: ...}\<close>.
\<close>

theorem set_subject_known_or_unknown:
  assumes "data ''subject_id'' = Some sid" and "distinct (map fst (subjects s))"
  shows "(sid \<notin> fst ` set (subjects s) \<longrightarrow>
            set_subject s data =
              (s, Inr (JObj [(''success'', JBool False),
                             (''error'', JStr ''Subject not found'')]))) \<and>
         (\<forall>name. (sid, name) \<in> set (subjects s) \<longrightarrow>
            set_subject s data =
              (s\<lparr>current_subject := (sid, name)\<rparr>,
               Inr (JObj [(''success'', JBool True),
                          (''current'', JObj [(''subject_id'', JStr sid),
                                              (''subject_name'', JStr name)])])))"
proof (intro conjI impI allI)
  assume "sid \<notin> fst ` set (subjects s)"
  then have "select_where_key sid (subjects s) = []"
    by (simp add: select_where_key_empty)
  with assms(1) show "set_subject s data =
      (s, Inr (JObj [(''success'', JBool False), (''error'', JStr ''Subject not found'')]))"
    by (simp add: set_subject_def getitem_def fetchone_def failure_def)
next
  fix name
  assume "(sid, name) \<in> set (subjects s)"
  with assms(2) have "select_where_key sid (subjects s) = [(sid, name)]"
    by (simp add: select_where_key_distinct)
  then have "fetchone (map snd (select_where_key sid (subjects s))) = Some name"
    by (simp add: fetchone_def)
  with assms(1) show "set_subject s data =
      (s\<lparr>current_subject := (sid, name)\<rparr>,
       Inr (JObj [(''success'', JBool True),
                  (''current'', JObj [(''subject_id'', JStr sid),
                                      (''subject_name'', JStr name)])]))"
    by (simp add: set_subject_def getitem_def current_json_def)
qed

text \<open>After start-up BCA-999 is refused and BCA-503 becomes the active subject.\<close>

theorem set_subject_known_or_unknown_witness:
  "set_subject (startup fresh) [''subject_id'' \<mapsto> ''BCA-999'']
     = (startup fresh,
        Inr (JObj [(''success'', JBool False), (''error'', JStr ''Subject not found'')])) \<and>
   set_subject (startup fresh) [''subject_id'' \<mapsto> ''BCA-503'']
     = ((startup fresh)\<lparr>current_subject := (''BCA-503'', ''CN'')\<rparr>,
        Inr (JObj [(''success'', JBool True),
                   (''current'', JObj [(''subject_id'', JStr ''BCA-503''),
                                       (''subject_name'', JStr ''CN'')])]))"
proof -
  have keys: "distinct (map fst (subjects (startup fresh)))"
    by (simp add: startup_fresh default_subjects_def)
  have unknown: "''BCA-999'' \<notin> fst ` set (subjects (startup fresh))"
    by (simp add: startup_fresh default_subjects_def)
  have known: "(''BCA-503'', ''CN'') \<in> set (subjects (startup fresh))"
    by (simp add: startup_fresh default_subjects_def)
  from set_subject_known_or_unknown [of "[''subject_id'' \<mapsto> ''BCA-999'']" "''BCA-999''"
      "startup fresh"] keys unknown
  have a: "set_subject (startup fresh) [''subject_id'' \<mapsto> ''BCA-999'']
     = (startup fresh,
        Inr (JObj [(''success'', JBool False), (''error'', JStr ''Subject not found'')]))"
    by simp
  from set_subject_known_or_unknown [of "[''subject_id'' \<mapsto> ''BCA-503'']" "''BCA-503''"
      "startup fresh"] keys known
  have b: "set_subject (startup fresh) [''subject_id'' \<mapsto> ''BCA-503'']
     = ((startup fresh)\<lparr>current_subject := (''BCA-503'', ''CN'')\<rparr>,
        Inr (JObj [(''success'', JBool True),
                   (''current'', JObj [(''subject_id'', JStr ''BCA-503''),
                                       (''subject_name'', JStr ''CN'')])]))"
    by simp
  from a b show ?thesis ..
qed

text \<open>
  C10. In every state of a run, whatever databases it started on, the \<open>subject_id\<close>
  of \<open>current_subject\<close> is the \<open>subject_id\<close> of a row of the subjects table.
\<close>

theorem current_subject_in_subjects:
  "reachable disk s \<Longrightarrow> fst (current_subject s) \<in> fst ` set (subjects s)"
proof (induction rule: reachable.induct)
  case start
  show ?case by (simp add: startup_frame startup_has_default)
next
  case (set s data)
  then show ?case by (simp add: set_subject_current set_subject_frame)
qed (simp_all add: register_student_frame scan_qr_frame fst_show_data fst_get_subjects
      fst_clear_data)

text \<open>The state after start-up and one \<open>/set-subject\<close> to BCA-503.\<close>

theorem current_subject_in_subjects_witness:
  "reachable fresh (fst (set_subject (startup fresh) [''subject_id'' \<mapsto> ''BCA-503''])) \<and>
   fst (current_subject (fst (set_subject (startup fresh) [''subject_id'' \<mapsto> ''BCA-503''])))
     \<in> fst ` set (subjects (fst (set_subject (startup fresh)
           [''subject_id'' \<mapsto> ''BCA-503''])))"
proof -
  have 1: "reachable fresh (fst (set_subject (startup fresh)
      [''subject_id'' \<mapsto> ''BCA-503'']))"
    by (intro reachable.set reachable.start)
  from 1 current_subject_in_subjects [OF 1] show ?thesis ..
qed

subsection \<open>Clearing and reading\<close>

text \<open>
  C5. \<open>/clear-data\<close> empties the students table and the attendance table and changes
  nothing else, the subjects table in particular, and answers \<open>success: true\<close>. In a
  run that started on fresh databases, \<open>/data\<close> after \<open>/clear-data\<close> shows no student,
  no attendance row and the five default subjects (by name: CN, DBMS, DBMS-LAB, JAVA,
  JAVA-LAB).
\<close>

theorem clear_data_keeps_subjects:
  "fst (clear_data s) = s\<lparr>students := [], attendance := []\<rparr> \<and>
   snd (clear_data s) = Inr (JObj [(''success'', JBool True),
                                  (''message'', JStr ''All data cleared successfully'')]) \<and>
   (reachable fresh s \<longrightarrow>
      snd (show_data (fst (clear_data s))) =
        Inr (JObj
          [(''database1_student_data'', JObj
              [(''students'', JList []),
               (''subjects'', JList
                  [JObj [(''subject_id'', JStr ''BCA-503''), (''subject_name'', JStr ''CN'')],
                   JObj [(''subject_id'', JStr ''BCA-501''), (''subject_name'', JStr ''DBMS'')],
                   JObj [(''subject_id'', JStr ''BCA-504''), (''subject_name'', JStr ''DBMS-LAB'')],
                   JObj [(''subject_id'', JStr ''BCA-502''), (''subject_name'', JStr ''JAVA'')],
                   JObj [(''subject_id'', JStr ''BCA-505''), (''subject_name'', JStr ''JAVA-LAB'')]])]),
           (''database2_attendance'', JObj [(''attendance'', JList [])])]))"
proof (intro conjI impI)
  show "fst (clear_data s) = s\<lparr>students := [], attendance := []\<rparr>"
    by (simp add: clear_data_def)
  show "snd (clear_data s) = Inr (JObj [(''success'', JBool True),
      (''message'', JStr ''All data cleared successfully'')])"
    by (simp add: clear_data_def)
next
  assume "reachable fresh s"
  then have "subjects s = default_subjects"
    by (rule reachable_fresh_subjects)
  then show "snd (show_data (fst (clear_data s))) =
        Inr (JObj
          [(''database1_student_data'', JObj
              [(''students'', JList []),
               (''subjects'', JList
                  [JObj [(''subject_id'', JStr ''BCA-503''), (''subject_name'', JStr ''CN'')],
                   JObj [(''subject_id'', JStr ''BCA-501''), (''subject_name'', JStr ''DBMS'')],
                   JObj [(''subject_id'', JStr ''BCA-504''), (''subject_name'', JStr ''DBMS-LAB'')],
                   JObj [(''subject_id'', JStr ''BCA-502''), (''subject_name'', JStr ''JAVA'')],
                   JObj [(''subject_id'', JStr ''BCA-505''), (''subject_name'', JStr ''JAVA-LAB'')]])]),
           (''database2_attendance'', JObj [(''attendance'', JList [])])])"
    by (simp add: show_data_def clear_data_def order_by_default_subjects order_by_desc_def
          subject_json_def)
qed

text \<open>The state after start-up and the registration of BCA001.\<close>

theorem clear_data_keeps_subjects_witness:
  "reachable fresh (fst (register_student flat_dir_env (startup fresh)
       [''roll_no'' \<mapsto> ''BCA001'', ''name'' \<mapsto> ''Asha''])) \<and>
   snd (show_data (fst (clear_data (fst (register_student flat_dir_env (startup fresh)
       [''roll_no'' \<mapsto> ''BCA001'', ''name'' \<mapsto> ''Asha''])))))
   = Inr (JObj
          [(''database1_student_data'', JObj
              [(''students'', JList []),
               (''subjects'', JList
                  [JObj [(''subject_id'', JStr ''BCA-503''), (''subject_name'', JStr ''CN'')],
                   JObj [(''subject_id'', JStr ''BCA-501''), (''subject_name'', JStr ''DBMS'')],
                   JObj [(''subject_id'', JStr ''BCA-504''), (''subject_name'', JStr ''DBMS-LAB'')],
                   JObj [(''subject_id'', JStr ''BCA-502''), (''subject_name'', JStr ''JAVA'')],
                   JObj [(''subject_id'', JStr ''BCA-505''), (''subject_name'', JStr ''JAVA-LAB'')]])]),
           (''database2_attendance'', JObj [(''attendance'', JList [])])])"
proof -
  have r: "reachable fresh (fst (register_student flat_dir_env (startup fresh)
       [''roll_no'' \<mapsto> ''BCA001'', ''name'' \<mapsto> ''Asha'']))"
    by (intro reachable.register reachable.start)
  from r clear_data_keeps_subjects [of "fst (register_student flat_dir_env (startup fresh)
       [''roll_no'' \<mapsto> ''BCA001'', ''name'' \<mapsto> ''Asha''])"]
  show ?thesis by blast
qed

text \<open>
  C7. \<open>/data\<close> changes no store and answers with one dictionary, for any contents of
  the tables. It holds every row of the students table, as \<open>roll_no\<close> and \<open>name\<close>;
  the rows of the subjects table, as \<open>subject_id\<close> and \<open>subject_name\<close>, in ascending
  order of \<open>subject_name\<close>; and the rows of the attendance table, with their five
  columns, in descending order of \<open>datetime\<close>, where NULL is below every number, a
  number below every text, numbers compare by value and texts byte by byte. Each sorted
  list has the rows of its table, no more and no fewer, and rows with equal sort keys
  stay in the order of the table.
\<close>

theorem show_data_snapshot:
  "(let key = (\<lambda>row. case datetime row of
                        SqlNull \<Rightarrow> (0::nat, 0::real, [])
                      | SqlInteger i \<Rightarrow> (1, of_int i, [])
                      | SqlReal r \<Rightarrow> (1, r, [])
                      | SqlText x \<Rightarrow> (2, 0, x));
        subjs = order_by snd (subjects s);
        atts = order_by_desc datetime (attendance s)
    in show_data s =
         (s, Inr (JObj
            [(''database1_student_data'', JObj
                [(''students'', JList (map (\<lambda>row.
                     JObj [(''roll_no'', JStr (fst row)), (''name'', JStr (snd row))])
                   (students s))),
                 (''subjects'', JList (map (\<lambda>row.
                     JObj [(''subject_id'', JStr (fst row)),
                           (''subject_name'', JStr (snd row))])
                   subjs))]),
             (''database2_attendance'', JObj
                [(''attendance'', JList (map (\<lambda>row.
                     JObj [(''log_id'', JInt (log_id row)),
                           (''roll_no'', JStr (roll_no row)),
                           (''subject_id'', JStr (subject_id row)),
                           (''datetime'', (case datetime row of
                                SqlNull \<Rightarrow> JNull
                              | SqlInteger i \<Rightarrow> JInt i
                              | SqlReal r \<Rightarrow> JReal r
                              | SqlText x \<Rightarrow> JStr x)),
                           (''status'', JStr (status row))])
                   atts))])])) \<and>
       mset subjs = mset (subjects s) \<and>
       sorted_wrt (\<lambda>a b. snd a \<le> snd b) subjs \<and>
       (\<forall>k. filter (\<lambda>row. snd row = k) subjs = filter (\<lambda>row. snd row = k) (subjects s)) \<and>
       mset atts = mset (attendance s) \<and>
       sorted_wrt (\<lambda>a b. key b \<le> key a) atts \<and>
       (\<forall>k. filter (\<lambda>row. key row = k) atts = filter (\<lambda>row. key row = k) (attendance s)))"
proof -
  let ?key = "\<lambda>row. case datetime row of
                        SqlNull \<Rightarrow> (0::nat, 0::real, [])
                      | SqlInteger i \<Rightarrow> (1, of_int i, [])
                      | SqlReal r \<Rightarrow> (1, r, [])
                      | SqlText x \<Rightarrow> (2, 0, x)"
  let ?subjs = "order_by snd (subjects s)"
  let ?atts = "order_by_desc datetime (attendance s)"
  have answer: "show_data s =
         (s, Inr (JObj
            [(''database1_student_data'', JObj
                [(''students'', JList (map (\<lambda>row.
                     JObj [(''roll_no'', JStr (fst row)), (''name'', JStr (snd row))])
                   (students s))),
                 (''subjects'', JList (map (\<lambda>row.
                     JObj [(''subject_id'', JStr (fst row)),
                           (''subject_name'', JStr (snd row))])
                   ?subjs))]),
             (''database2_attendance'', JObj
                [(''attendance'', JList (map (\<lambda>row.
                     JObj [(''log_id'', JInt (log_id row)),
                           (''roll_no'', JStr (roll_no row)),
                           (''subject_id'', JStr (subject_id row)),
                           (''datetime'', (case datetime row of
                                SqlNull \<Rightarrow> JNull
                              | SqlInteger i \<Rightarrow> JInt i
                              | SqlReal r \<Rightarrow> JReal r
                              | SqlText x \<Rightarrow> JStr x)),
                           (''status'', JStr (status row))])
                   ?atts))])]))"
    by (simp add: show_data_def student_json_def subject_json_def attendance_json_def
          sql_json_def fun_eq_iff)
  have subj_mset: "mset ?subjs = mset (subjects s)"
    by (simp add: order_by_def)
  have "sorted (map snd (sort_key snd (subjects s)))"
    by (rule sorted_sort_key)
  then have subj_sorted: "sorted_wrt (\<lambda>a b. snd a \<le> snd b) ?subjs"
    by (simp add: order_by_def sorted_map)
  have subj_stable: "filter (\<lambda>row. snd row = k) ?subjs = filter (\<lambda>row. snd row = k) (subjects s)"
    for k
    by (simp add: order_by_def sort_key_stable)
  have att_mset: "mset ?atts = mset (attendance s)"
    by (simp add: order_by_desc_def)
  have "sorted (map ?key (sort_key ?key (rev (attendance s))))"
    by (rule sorted_sort_key)
  then have att_sorted: "sorted_wrt (\<lambda>a b. ?key b \<le> ?key a) ?atts"
    by (simp add: order_by_desc_def sorted_map sorted_wrt_rev sql_key_def)
  have att_stable: "filter (\<lambda>row. ?key row = k) ?atts = filter (\<lambda>row. ?key row = k) (attendance s)"
    for k
  proof -
    have "filter (\<lambda>row. ?key row = k) (sort_key ?key (rev (attendance s)))
        = filter (\<lambda>row. ?key row = k) (rev (attendance s))"
      by (rule sort_key_stable)
    then have "rev (filter (\<lambda>row. ?key row = k) (sort_key ?key (rev (attendance s))))
        = filter (\<lambda>row. ?key row = k) (attendance s)"
      by (simp add: rev_filter)
    then show ?thesis
      by (simp add: order_by_desc_def rev_filter sql_key_def)
  qed
  show ?thesis
    unfolding Let_def
    using answer subj_mset subj_sorted subj_stable att_mset att_sorted att_stable
    by (intro conjI allI)
qed

subsection \<open>Scanning\<close>

text \<open>
  C6. A scan of a roll number that the students table does not hold answers
  \<open>{success: false, error: 'Student not found'}\<close> as an ordinary response and changes
  no store.
\<close>

theorem scan_unknown_student:
  assumes "data ''roll_no'' = Some rno" and "rno \<notin> fst ` set (students s)"
  shows "scan_qr now s data =
           (s, Inr (JObj [(''success'', JBool False),
                          (''error'', JStr ''Student not found'')]))"
  using assms
  by (simp add: scan_qr_def getitem_def fetchone_def failure_def
        select_where_key_empty [symmetric])

text \<open>Nobody is registered after start-up on fresh databases.\<close>

theorem scan_unknown_student_witness:
  "scan_qr ''2024-01-01 10:00:00'' (startup fresh) [''roll_no'' \<mapsto> ''BCA001'']
     = (startup fresh,
        Inr (JObj [(''success'', JBool False), (''error'', JStr ''Student not found'')]))"
proof -
  have 1: "[''roll_no'' \<mapsto> ''BCA001''] ''roll_no'' = Some ''BCA001''"
    by simp
  have 2: "''BCA001'' \<notin> fst ` set (students (startup fresh))"
    unfolding startup_fresh by (simp add: fresh_def)
  show ?thesis
    using 1 2 by (rule scan_unknown_student)
qed

text \<open>
  C8. In every state of a run, an attendance row that was not in the database when the
  run started has the status Present.
\<close>

theorem attendance_status_present:
  "reachable disk s \<Longrightarrow> r \<in> set (attendance s) \<Longrightarrow>
     r \<in> set (attendance disk) \<or> status r = ''Present''"
proof (induction arbitrary: r rule: reachable.induct)
  case start
  then show ?case by (simp add: startup_frame)
next
  case (register s env data)
  then show ?case by (simp add: register_student_frame)
next
  case (clear s)
  then show ?case by (simp add: fst_clear_data)
next
  case (data s)
  then show ?case by (simp add: fst_show_data)
next
  case (subjects s)
  then show ?case by (simp add: fst_get_subjects)
next
  case (set s data)
  then show ?case by (simp add: set_subject_frame)
next
  case (scan s now data)
  from scan.prems have "r \<in> set (attendance s) \<or> status r = ''Present''"
    by (rule scan_qr_attendance)
  with scan.IH show ?case by blast
qed

text \<open>The row that the first scan of BCA001 writes on fresh databases.\<close>

theorem attendance_status_present_witness:
  "reachable fresh (fst (scan_qr ''2024-01-01 10:00:00''
       (fst (register_student flat_dir_env (startup fresh)
          [''roll_no'' \<mapsto> ''BCA001'', ''name'' \<mapsto> ''Asha'']))
       [''roll_no'' \<mapsto> ''BCA001''])) \<and>
   \<lparr>log_id = 1, roll_no = ''BCA001'', subject_id = ''BCA-501'',
      datetime = SqlText ''2024-01-01 10:00:00'', status = ''Present''\<rparr>
     \<in> set (attendance (fst (scan_qr ''2024-01-01 10:00:00''
       (fst (register_student flat_dir_env (startup fresh)
          [''roll_no'' \<mapsto> ''BCA001'', ''name'' \<mapsto> ''Asha'']))
       [''roll_no'' \<mapsto> ''BCA001'']))) \<and>
   (\<lparr>log_id = 1, roll_no = ''BCA001'', subject_id = ''BCA-501'',
      datetime = SqlText ''2024-01-01 10:00:00'', status = ''Present''\<rparr> \<in> set (attendance fresh) \<or>
    status \<lparr>log_id = 1, roll_no = ''BCA001'', subject_id = ''BCA-501'',
      datetime = SqlText ''2024-01-01 10:00:00'', status = ''Present''\<rparr> = ''Present'')"
proof -
  let ?s = "fst (scan_qr ''2024-01-01 10:00:00''
       (fst (register_student flat_dir_env (startup fresh)
          [''roll_no'' \<mapsto> ''BCA001'', ''name'' \<mapsto> ''Asha'']))
       [''roll_no'' \<mapsto> ''BCA001''])"
  let ?r = "\<lparr>log_id = 1, roll_no = ''BCA001'', subject_id = ''BCA-501'',
      datetime = SqlText ''2024-01-01 10:00:00'', status = ''Present''\<rparr>"
  have 1: "reachable fresh ?s"
    by (intro reachable.scan reachable.register reachable.start)
  have 2: "?r \<in> set (attendance ?s)"
    by code_simp
  from 1 2 attendance_status_present [OF 1 2] show ?thesis
    by (intro conjI)
qed

end
